theory Spec2Isabelle
  imports Complex_Main "HOL-Library.Char_ord" "HOL-Library.List_Lexorder"
    "HOL-Library.Multiset"
begin

section \<open>Data model\<close>

text \<open>
  A row of the \<^verbatim>\<open>tokens\<close> table as the page receives it (\<^verbatim>\<open>select('*')\<close>, so
  every column is present). A nullable column is an \<open>option\<close>, \<open>None\<close> being
  JavaScript's \<^verbatim>\<open>null\<close>. Numbers arrive as JSON numbers: finite, never NaN; a
  number of a row is modelled by the rational it denotes.
  Strings are lists of code units compared lexicographically, as \<^verbatim>\<open><\<close> compares
  two JavaScript strings. The column \<^verbatim>\<open>id\<close> is named \<open>token_id\<close> here.
\<close>

text \<open>
  \<^verbatim>\<open>select('market_cap')\<close> returns rows that hold that one column; a full row
  holds it too, so the full row extends the one-column row.
\<close>

record MarketCapRow =
  market_cap :: "rat option"

record TokenRecord = MarketCapRow +
  token_id :: nat
  token_address :: string
  token_name :: "string option"
  token_symbol :: "string option"
  price :: "rat option"
  volume_24h :: "rat option"
  bonding_curve_progress :: "rat option"
  creation_time :: "string option"
  is_king_of_hill :: bool
  raydium_migrated :: bool

text \<open>
  The sortable columns: the seven keys the header cells pass to \<^verbatim>\<open>handleSort\<close>
  (TokenTable, lines 48-84).
\<close>

datatype field =
  F_token_name | F_token_symbol | F_price | F_market_cap | F_volume_24h
  | F_bonding_curve_progress | F_creation_time

datatype direction = Asc | Desc

text \<open>The two \<^verbatim>\<open>useState\<close> cells of TokenTable (lines 5-6).\<close>

record SortState =
  sortField :: field
  sortDirection :: direction

definition initialSortState :: SortState where
  "initialSortState = \<lparr>sortField = F_market_cap, sortDirection = Desc\<rparr>"

section \<open>TokenTable: the sort toggle\<close>

text \<open>\<^verbatim>\<open>handleSort\<close> (TokenTable, lines 8-15).\<close>

definition handleSort :: "field \<Rightarrow> SortState \<Rightarrow> SortState" where
  "handleSort fld st =
     (if fld = sortField st
      then st\<lparr>sortDirection := (if sortDirection st = Asc then Desc else Asc)\<rparr>
      else st\<lparr>sortField := fld, sortDirection := Desc\<rparr>)"

section \<open>TokenTable: the comparator and the sort\<close>

text \<open>
  The comparator of lines 17-26, with \<^verbatim>\<open>a[sortField]\<close> read through an accessor
  \<open>get\<close>. \<^verbatim>\<open>x > y\<close> is \<open>y < x\<close>.
\<close>

definition compare_by :: "('r \<Rightarrow> 'v::linorder option) \<Rightarrow> direction \<Rightarrow> 'r \<Rightarrow> 'r \<Rightarrow> int" where
  "compare_by get d a b =
     (case get a of
        None \<Rightarrow> 1
      | Some x \<Rightarrow>
          (case get b of
             None \<Rightarrow> - 1
           | Some y \<Rightarrow>
               (if d = Asc then (if x < y then - 1 else 1)
                else (if y < x then - 1 else 1))))"

text \<open>The dynamic property read \<^verbatim>\<open>a[sortField]\<close>, resolved per column.\<close>

fun comparator :: "field \<Rightarrow> direction \<Rightarrow> TokenRecord \<Rightarrow> TokenRecord \<Rightarrow> int" where
  "comparator F_token_name d = compare_by token_name d"
| "comparator F_token_symbol d = compare_by token_symbol d"
| "comparator F_price d = compare_by price d"
| "comparator F_market_cap d = compare_by market_cap d"
| "comparator F_volume_24h d = compare_by volume_24h d"
| "comparator F_bonding_curve_progress d = compare_by bonding_curve_progress d"
| "comparator F_creation_time d = compare_by creation_time d"

text \<open>\<^verbatim>\<open>a[F] === null\<close> and \<^verbatim>\<open>a[F] === b[F]\<close>, per column.\<close>

fun isNull :: "field \<Rightarrow> TokenRecord \<Rightarrow> bool" where
  "isNull F_token_name a = (token_name a = None)"
| "isNull F_token_symbol a = (token_symbol a = None)"
| "isNull F_price a = (price a = None)"
| "isNull F_market_cap a = (market_cap a = None)"
| "isNull F_volume_24h a = (volume_24h a = None)"
| "isNull F_bonding_curve_progress a = (bonding_curve_progress a = None)"
| "isNull F_creation_time a = (creation_time a = None)"

fun sameValue :: "field \<Rightarrow> TokenRecord \<Rightarrow> TokenRecord \<Rightarrow> bool" where
  "sameValue F_token_name a b = (token_name a = token_name b)"
| "sameValue F_token_symbol a b = (token_symbol a = token_symbol b)"
| "sameValue F_price a b = (price a = price b)"
| "sameValue F_market_cap a b = (market_cap a = market_cap b)"
| "sameValue F_volume_24h a b = (volume_24h a = volume_24h b)"
| "sameValue F_bonding_curve_progress a b = (bonding_curve_progress a = bonding_curve_progress b)"
| "sameValue F_creation_time a b = (creation_time a = creation_time b)"

text \<open>
  \<^verbatim>\<open>Array.prototype.sort\<close> is the engine's. The comparator above never returns
  0, so it is not a consistent comparator in ECMAScript's sense and the standard
  leaves the resulting order to the engine. Two insertion sorts are modelled;
  they differ in how they read the comparator, and so in where they put equal
  keys.
  \<^item> \<open>Insert_if_negative\<close>: each element, from left to right, is placed in the
    ordered prefix before the first element \<open>other\<close> with
    \<^verbatim>\<open>comparefn(element, other) < 0\<close> and after everything else. This is where
    V8's binary insertion (its sort of an array of fewer than 64 elements; the
    page loads at most 50 rows) puts it.
  \<^item> \<open>Shift_while_positive\<close>: each element, from left to right, is moved left
    past the element before it while \<^verbatim>\<open>comparefn(previous, element) > 0\<close>, and
    stays behind the first one for which that fails.
\<close>

datatype engine = Insert_if_negative | Shift_while_positive

fun insert_by :: "('a \<Rightarrow> 'a \<Rightarrow> int) \<Rightarrow> 'a \<Rightarrow> 'a list \<Rightarrow> 'a list" where
  "insert_by comparefn x [] = [x]"
| "insert_by comparefn x (y # ys) =
     (if comparefn x y < 0 then x # y # ys else y # insert_by comparefn x ys)"

text \<open>
  The shifting loop walks the prefix from its right end, so it is written on
  the reversed prefix: \<open>previous\<close> is the element just left of the gap.
\<close>

fun shift_in :: "('a \<Rightarrow> 'a \<Rightarrow> int) \<Rightarrow> 'a \<Rightarrow> 'a list \<Rightarrow> 'a list" where
  "shift_in comparefn item [] = [item]"
| "shift_in comparefn item (previous # before) =
     (if comparefn previous item > 0 then previous # shift_in comparefn item before
      else item # previous # before)"

definition shift_by :: "('a \<Rightarrow> 'a \<Rightarrow> int) \<Rightarrow> 'a \<Rightarrow> 'a list \<Rightarrow> 'a list" where
  "shift_by comparefn item sorted_prefix = rev (shift_in comparefn item (rev sorted_prefix))"

definition array_sort :: "engine \<Rightarrow> ('a \<Rightarrow> 'a \<Rightarrow> int) \<Rightarrow> 'a list \<Rightarrow> 'a list" where
  "array_sort e comparefn xs =
     foldl (\<lambda>sorted_prefix x.
              (case e of
                 Insert_if_negative \<Rightarrow> insert_by comparefn x sorted_prefix
               | Shift_while_positive \<Rightarrow> shift_by comparefn x sorted_prefix))
       [] xs"

text \<open>
  \<^verbatim>\<open>sortedTokens\<close> (lines 17-26), on the contents of the arrays, in a browser
  whose engine is \<open>e\<close>.
\<close>

definition sortedTokens :: "engine \<Rightarrow> SortState \<Rightarrow> TokenRecord list \<Rightarrow> TokenRecord list" where
  "sortedTokens e st tokens =
     array_sort e (comparator (sortField st) (sortDirection st)) tokens"

section \<open>Numbers\<close>

text \<open>
  A JavaScript number is an IEEE 754 double: a finite value (here the rational
  it denotes, \<open>Finite 0\<close> being +0), negative zero, an infinity or NaN.
\<close>

datatype number = Finite rat | NegZero | PosInfinity | NegInfinity | NaN

text \<open>
  The binary exponent of a positive \<open>x\<close> (the floor of its logarithm to base
  2), found by bisection on the steps 512, 256, down to 1, and kept within
  -1022..1023, the exponents of a double.
\<close>

fun log2_up :: "nat \<Rightarrow> rat \<Rightarrow> int \<Rightarrow> int" where
  "log2_up k x e =
     (if k = 0 then e
      else if 2 ^ k \<le> x then log2_up (k div 2) (x / 2 ^ k) (e + int k)
      else log2_up (k div 2) x e)"

fun log2_down :: "nat \<Rightarrow> rat \<Rightarrow> int \<Rightarrow> int" where
  "log2_down k x e =
     (if k = 0 then e
      else if x * 2 ^ k < 1 then log2_down (k div 2) (x * 2 ^ k) (e - int k)
      else log2_down (k div 2) x e)"

definition binary_exponent :: "rat \<Rightarrow> int" where
  "binary_exponent x =
     (if 1 \<le> x then log2_up 512 x 0 else max (- 1022) (log2_down 512 x 0 - 1))"

text \<open>
  The spacing of the doubles of binary exponent \<open>e\<close> (52 fraction bits below
  it), and that of the doubles around a positive \<open>x\<close>.
\<close>

definition spacing :: "int \<Rightarrow> rat" where
  "spacing e = (if 52 \<le> e then 2 ^ nat (e - 52) else 1 / 2 ^ nat (52 - e))"

definition ulp :: "rat \<Rightarrow> rat" where
  "ulp x = spacing (binary_exponent x)"

text \<open>
  The integer nearest to \<open>r\<close>, given its floor \<open>n\<close>; of two that are equally near,
  the even one.
\<close>

definition nearest_to :: "rat \<Rightarrow> int \<Rightarrow> int" where
  "nearest_to r n =
     (if r - of_int n < 1 / 2 then n
      else if 1 / 2 < r - of_int n then n + 1
      else if even n then n else n + 1)"

definition round_half_even :: "rat \<Rightarrow> int" where
  "round_half_even r = nearest_to r \<lfloor>r\<rfloor>"

text \<open>
  The double nearest to an exact result \<open>x\<close>, a tie going to the even
  significand: the magnitude is rounded to a multiple of the spacing, and the
  result is an infinity from \<open>2 ^ 1024\<close> on and a zero with the sign of \<open>x\<close>
  when the magnitude rounds to nothing.
\<close>

definition on_grid :: "rat \<Rightarrow> rat \<Rightarrow> rat" where
  "on_grid u x = of_int (round_half_even (x / u)) * u"

definition with_sign :: "bool \<Rightarrow> rat \<Rightarrow> number" where
  "with_sign minus_sign m =
     (if 2 ^ 1024 \<le> m then (if minus_sign then NegInfinity else PosInfinity)
      else if m = 0 then (if minus_sign then NegZero else Finite 0)
      else Finite (if minus_sign then - m else m))"

definition to_double :: "rat \<Rightarrow> number" where
  "to_double x =
     (if x = 0 then Finite 0 else with_sign (x < 0) (on_grid (ulp \<bar>x\<bar>) \<bar>x\<bar>))"

text \<open>The sign bit, and the two kinds of special operand.\<close>

definition negative :: "number \<Rightarrow> bool" where
  "negative a =
     (case a of Finite x \<Rightarrow> x < 0 | NegZero \<Rightarrow> True | PosInfinity \<Rightarrow> False
      | NegInfinity \<Rightarrow> True | NaN \<Rightarrow> False)"

definition is_zero :: "number \<Rightarrow> bool" where
  "is_zero a = (a = Finite 0 \<or> a = NegZero)"

definition is_infinite :: "number \<Rightarrow> bool" where
  "is_infinite a = (a = PosInfinity \<or> a = NegInfinity)"

definition value_of :: "number \<Rightarrow> rat" where
  "value_of a = (case a of Finite x \<Rightarrow> x | _ \<Rightarrow> 0)"

text \<open>
  \<^verbatim>\<open>a + b\<close> on two numbers: NaN is contagious, opposite infinities give NaN, an
  infinity absorbs, two negative zeros give negative zero, and otherwise the
  exact sum is rounded (an exact sum of 0 is +0).
\<close>

definition js_add :: "number \<Rightarrow> number \<Rightarrow> number" where
  "js_add a b =
     (if a = NaN \<or> b = NaN then NaN
      else if is_infinite a then (if is_infinite b \<and> a \<noteq> b then NaN else a)
      else if is_infinite b then b
      else if a = NegZero \<and> b = NegZero then NegZero
      else to_double (value_of a + value_of b))"

text \<open>
  \<^verbatim>\<open>a / b\<close> on two numbers: NaN for a NaN operand, for two infinities and for
  two zeros; an infinity or a zero with the product of the signs when one
  operand is an infinity or a zero; otherwise the exact quotient, rounded.
\<close>

definition js_divide :: "number \<Rightarrow> number \<Rightarrow> number" where
  "js_divide a b =
     (if a = NaN \<or> b = NaN then NaN
      else if is_infinite a
        then (if is_infinite b then NaN
              else if negative a = negative b then PosInfinity else NegInfinity)
      else if is_infinite b then (if negative a = negative b then Finite 0 else NegZero)
      else if is_zero b
        then (if is_zero a then NaN
              else if negative a = negative b then PosInfinity else NegInfinity)
      else if is_zero a then (if negative a = negative b then Finite 0 else NegZero)
      else to_double (value_of a / value_of b))"

section \<open>Home: page state and the two fetches\<close>

text \<open>
  What the data-store client hands back. An awaited query either rejects (the
  \<^verbatim>\<open>await\<close> throws) or resolves to an object \<^verbatim>\<open>{data, error, count}\<close>; the client
  reports a failed request in \<open>error\<close> with \<open>data\<close> and \<open>count\<close> null, which is what
  \<^verbatim>\<open>if (error) throw error\<close> in \<^verbatim>\<open>fetchTokens\<close> tests.
\<close>

datatype js_error = Failure string | TypeError string | RangeError string

datatype 'd response = Response (data: "'d option") (error: "js_error option") (count_of: "nat option")

datatype 'd awaited = Resolved "'d response" | Rejected js_error

record SummaryStats =
  totalTokens :: nat
  kingsOfHill :: nat
  raydiumMigrated :: nat
  averageMarketCap :: number

text \<open>
  The \<^verbatim>\<open>useState\<close> cells of Home (lines 7-14), and what \<^verbatim>\<open>console.error\<close> has
  printed.
\<close>

record Home =
  tokens :: "TokenRecord list"
  loading :: bool
  stats :: SummaryStats
  console :: "(string \<times> js_error) list"

definition initialHome :: Home where
  "initialHome =
     \<lparr>tokens = [], loading = True,
      stats = \<lparr>totalTokens = 0, kingsOfHill = 0, raydiumMigrated = 0,
               averageMarketCap = Finite 0\<rparr>,
      console = []\<rparr>"

definition console_error :: "string \<Rightarrow> js_error \<Rightarrow> Home \<Rightarrow> Home" where
  "console_error msg e st = st\<lparr>console := console st @ [(msg, e)]\<rparr>"

text \<open>
  \<^verbatim>\<open>fetchTokens\<close> (index.js, lines 21-37), given how its query settles. It
  returns when the query has settled.
\<close>

definition fetchTokens :: "TokenRecord list awaited \<Rightarrow> Home \<Rightarrow> Home" where
  "fetchTokens query st =
     (let st1 = st\<lparr>loading := True\<rparr>;
          st2 =
            (case query of
               Rejected e \<Rightarrow> console_error ''Error fetching tokens:'' e st1
             | Resolved r \<Rightarrow>
                 (case error r of
                    Some e \<Rightarrow> console_error ''Error fetching tokens:'' e st1
                  | None \<Rightarrow> st1\<lparr>tokens := (case data r of None \<Rightarrow> [] | Some rows \<Rightarrow> rows)\<rparr>))
      in st2\<lparr>loading := False\<rparr>)"

text \<open>A tokens fetch that failed: the await threw, or the response carries an error.\<close>

definition failed :: "'d awaited \<Rightarrow> bool" where
  "failed query = (case query of Rejected e \<Rightarrow> True | Resolved r \<Rightarrow> error r \<noteq> None)"

text \<open>
  The statistics compute with the market caps, so they see them as doubles:
  the response writes a value as a decimal and \<^verbatim>\<open>JSON.parse\<close> reads the double
  nearest to it (\<open>to_double\<close>, which leaves a rational that is a double as it
  is). Truthiness of a nullable number (\<^verbatim>\<open>token.market_cap\<close> as a filter
  condition): \<^verbatim>\<open>null\<close> and zero are falsy. The number it is as an operand of
  \<^verbatim>\<open>+\<close>: \<^verbatim>\<open>null\<close> counts as 0.
\<close>

definition truthy :: "rat option \<Rightarrow> bool" where
  "truthy v = (case v of None \<Rightarrow> False | Some x \<Rightarrow> \<not> is_zero (to_double x))"

definition toNumber :: "rat option \<Rightarrow> number" where
  "toNumber v = (case v of None \<Rightarrow> Finite 0 | Some x \<Rightarrow> to_double x)"

text \<open>
  Lines 63-69 of index.js. \<^verbatim>\<open>reduce\<close> adds the values from left to right,
  starting from 0, each sum rounded to a double; the quotient by the length is
  rounded too.
\<close>

definition validMarketCaps :: "MarketCapRow list \<Rightarrow> rat option list" where
  "validMarketCaps marketCapData =
     map (\<lambda>token. market_cap token) (filter (\<lambda>token. truthy (market_cap token)) marketCapData)"

definition averageOf :: "MarketCapRow list \<Rightarrow> number" where
  "averageOf marketCapData =
     (if length (validMarketCaps marketCapData) > 0
      then js_divide
             (foldl (\<lambda>sum cap. js_add sum (toNumber cap)) (Finite 0)
                (validMarketCaps marketCapData))
             (Finite (of_nat (length (validMarketCaps marketCapData))))
      else Finite 0)"

text \<open>\<^verbatim>\<open>count || 0\<close> on a count that is a number or null.\<close>

definition or_zero :: "nat option \<Rightarrow> nat" where
  "or_zero c = (case c of None \<Rightarrow> 0 | Some n \<Rightarrow> n)"

text \<open>
  \<^verbatim>\<open>fetchStats\<close> (index.js, lines 39-80), given how its four queries settle. The
  queries are awaited one after the other; the first that rejects ends the \<^verbatim>\<open>try\<close>
  block. Only \<open>count\<close> is read from the first three responses and only \<open>data\<close>
  from the fourth; \<open>error\<close> is not read. A null \<open>data\<close> makes
  \<^verbatim>\<open>marketCapData.filter\<close> throw a TypeError, which the \<^verbatim>\<open>catch\<close> logs.
\<close>

definition fetchStats ::
  "unit awaited \<Rightarrow> unit awaited \<Rightarrow> unit awaited \<Rightarrow> MarketCapRow list awaited \<Rightarrow> Home \<Rightarrow> Home" where
  "fetchStats q1 q2 q3 q4 st =
     (case q1 of
        Rejected e \<Rightarrow> console_error ''Error fetching stats:'' e st
      | Resolved r1 \<Rightarrow>
     (case q2 of
        Rejected e \<Rightarrow> console_error ''Error fetching stats:'' e st
      | Resolved r2 \<Rightarrow>
     (case q3 of
        Rejected e \<Rightarrow> console_error ''Error fetching stats:'' e st
      | Resolved r3 \<Rightarrow>
     (case q4 of
        Rejected e \<Rightarrow> console_error ''Error fetching stats:'' e st
      | Resolved r4 \<Rightarrow>
     (case data r4 of
        None \<Rightarrow>
          console_error ''Error fetching stats:''
            (TypeError ''Cannot read properties of null (reading filter)'') st
      | Some marketCapData \<Rightarrow>
          st\<lparr>stats :=
            \<lparr>totalTokens = or_zero (count_of r1),
             kingsOfHill = or_zero (count_of r2),
             raydiumMigrated = or_zero (count_of r3),
             averageMarketCap = averageOf marketCapData\<rparr>\<rparr>)))))"

section \<open>TokenTable: the sort on array objects\<close>

text \<open>
  An array is an object: the heap is a store of arrays, a reference is a
  position in it. \<^verbatim>\<open>[...tokens]\<close> allocates a new array with the elements of
  \<^verbatim>\<open>tokens\<close>; \<^verbatim>\<open>.sort\<close> reorders the array it is called on, in place, and
  returns it.
\<close>

type_synonym ref = nat

type_synonym 'a heap = "'a list list"

definition deref :: "'a heap \<Rightarrow> ref \<Rightarrow> 'a list option" where
  "deref h r = (if r < length h then Some (h ! r) else None)"

definition spread :: "'a list \<Rightarrow> 'a heap \<Rightarrow> ref \<times> 'a heap" where
  "spread elements h = (length h, h @ [elements])"

definition sort_in_place ::
  "engine \<Rightarrow> ('a \<Rightarrow> 'a \<Rightarrow> int) \<Rightarrow> ref \<Rightarrow> 'a heap \<Rightarrow> 'a heap" where
  "sort_in_place e comparefn r h =
     (if r < length h then h[r := array_sort e comparefn (h ! r)] else h)"

definition sortedTokens_ref ::
  "engine \<Rightarrow> SortState \<Rightarrow> ref \<Rightarrow> TokenRecord heap \<Rightarrow> (ref \<times> TokenRecord heap) option" where
  "sortedTokens_ref e st tokens_ref h =
     (case deref h tokens_ref of
        None \<Rightarrow> None
      | Some elements \<Rightarrow>
          (case spread elements h of
             (copy, h1) \<Rightarrow>
               Some (copy,
                 sort_in_place e (comparator (sortField st) (sortDirection st)) copy h1)))"

section \<open>Formatting\<close>

text \<open>
  The argument of a formatter: a value, \<^verbatim>\<open>null\<close> or \<^verbatim>\<open>undefined\<close>. A column read
  from a row is a value or \<^verbatim>\<open>null\<close>.
\<close>

datatype 'a js_value = Undefined | Null | Value 'a

definition column :: "'a option \<Rightarrow> 'a js_value" where
  "column v = (case v of None \<Rightarrow> Null | Some x \<Rightarrow> Value x)"

text \<open>
  A numeric column as the argument of a formatter: \<^verbatim>\<open>null\<close>, or the double
  that \<^verbatim>\<open>JSON.parse\<close> read.
\<close>

definition number_column :: "rat option \<Rightarrow> number js_value" where
  "number_column v = column (map_option to_double v)"

text \<open>The result of \<^verbatim>\<open>ToNumber\<close>: \<^verbatim>\<open>null\<close> is 0, \<^verbatim>\<open>undefined\<close> is NaN.\<close>

definition toNumeric :: "number js_value \<Rightarrow> number" where
  "toNumeric v = (case v of Undefined \<Rightarrow> NaN | Null \<Rightarrow> Finite 0 | Value n \<Rightarrow> n)"

text \<open>Decimal digits of a natural number, and the last \<open>f\<close> digits of one.\<close>

definition digit :: "nat \<Rightarrow> char" where
  "digit d = ''0123456789'' ! (d mod 10)"

fun decimal :: "nat \<Rightarrow> string" where
  "decimal n = (if n < 10 then [digit n] else decimal (n div 10) @ [digit n])"

fun fraction_digits :: "nat \<Rightarrow> nat \<Rightarrow> string" where
  "fraction_digits f n = (if f = 0 then [] else fraction_digits (f - 1) (n div 10) @ [digit n])"

text \<open>The en-US grouping of an integer part: a comma before every group of three.\<close>

fun group3 :: "string \<Rightarrow> string" where
  "group3 ds =
     (if length ds \<le> 3 then ds
      else group3 (take (length ds - 3) ds) @ '','' @ drop (length ds - 3) ds)"

text \<open>Trailing zeros of the fraction are dropped down to the minimum number of digits.\<close>

fun strip_zeros :: "nat \<Rightarrow> string \<Rightarrow> string" where
  "strip_zeros mnfd ds =
     (if mnfd < length ds \<and> last ds = CHR ''0'' then strip_zeros mnfd (butlast ds) else ds)"

text \<open>
  The magnitude scaled by \<open>10 ^ f\<close> and rounded to the nearest integer, a tie
  going away from zero (the default rounding of \<^verbatim>\<open>Intl.NumberFormat\<close>, and of
  \<^verbatim>\<open>toFixed\<close>).
\<close>

definition scaled :: "nat \<Rightarrow> rat \<Rightarrow> nat" where
  "scaled f x = nat \<lfloor>\<bar>x\<bar> * 10 ^ f + 1 / 2\<rfloor>"

text \<open>
  \<^verbatim>\<open>new Intl.NumberFormat('en-US', {style: 'currency', currency: 'USD',
  minimumFractionDigits, maximumFractionDigits})\<close>: the constructor throws a
  RangeError when a digit option is outside 0..100 or the minimum exceeds the
  maximum; \<^verbatim>\<open>format\<close> applies \<^verbatim>\<open>ToNumber\<close> to its argument and writes the sign,
  the dollar sign, the grouped integer part and the fraction. Negative zero
  keeps its sign; an infinity is written with the infinity sign (U+221E, here
  its three UTF-8 bytes) and NaN as \<^verbatim>\<open>NaN\<close>.
\<close>

definition infinity_sign :: string where
  "infinity_sign = [CHR 0xE2, CHR 0x88, CHR 0x9E]"

definition format_amount :: "nat \<Rightarrow> nat \<Rightarrow> bool \<Rightarrow> rat \<Rightarrow> string" where
  "format_amount mnfd mxfd signed x =
     (let n = scaled mxfd x;
          fraction = strip_zeros mnfd (fraction_digits mxfd n)
      in (if signed then ''-'' else []) @ ''$'' @ group3 (decimal (n div 10 ^ mxfd))
           @ (if fraction = [] then [] else ''.'' @ fraction))"

definition format_usd :: "nat \<Rightarrow> nat \<Rightarrow> number \<Rightarrow> string" where
  "format_usd mnfd mxfd v =
     (case v of
        NaN \<Rightarrow> ''$NaN''
      | PosInfinity \<Rightarrow> ''$'' @ infinity_sign
      | NegInfinity \<Rightarrow> ''-$'' @ infinity_sign
      | NegZero \<Rightarrow> format_amount mnfd mxfd True 0
      | Finite x \<Rightarrow> format_amount mnfd mxfd (x < 0) x)"

definition NumberFormat_usd :: "nat \<Rightarrow> nat \<Rightarrow> js_error + (number js_value \<Rightarrow> string)" where
  "NumberFormat_usd mnfd mxfd =
     (if 100 < mnfd \<or> 100 < mxfd then Inl (RangeError ''fraction digits value is out of range'')
      else if mxfd < mnfd then Inl (RangeError ''maximumFractionDigits value is out of range'')
      else Inr (\<lambda>value. format_usd mnfd mxfd (toNumeric value)))"

text \<open>\<^verbatim>\<open>formatCurrency\<close> of TokenTable (lines 28-36).\<close>

definition formatCurrency :: "number js_value \<Rightarrow> js_error + string" where
  "formatCurrency value =
     (if value = Null \<or> value = Undefined then Inr ''N/A''
      else (case NumberFormat_usd 2 6 of
              Inl e \<Rightarrow> Inl e
            | Inr formatter \<Rightarrow> Inr (formatter value)))"

text \<open>\<^verbatim>\<open>formatCurrency\<close> of Dashboard (lines 6-13).\<close>

definition formatCurrency_Dashboard :: "number js_value \<Rightarrow> js_error + string" where
  "formatCurrency_Dashboard value =
     (case NumberFormat_usd 0 0 of
        Inl e \<Rightarrow> Inl e
      | Inr formatter \<Rightarrow> Inr (formatter value))"

text \<open>
  \<^verbatim>\<open>formatDate\<close> of TokenTable (lines 38-41). What \<^verbatim>\<open>new Date(s).toLocaleString()\<close>
  writes depends on the host's locale and time zone; it is the parameter
  \<open>toLocaleString\<close>. It returns a string for every \<open>s\<close> (\<^verbatim>\<open>Invalid Date\<close> for one
  that does not parse).
\<close>

definition formatDate :: "(string \<Rightarrow> string) \<Rightarrow> string js_value \<Rightarrow> string" where
  "formatDate toLocaleString dateString =
     (case dateString of
        Undefined \<Rightarrow> ''N/A''
      | Null \<Rightarrow> ''N/A''
      | Value s \<Rightarrow> (if s = [] then ''N/A'' else toLocaleString s))"

text \<open>
  \<^verbatim>\<open>Number.prototype.toFixed\<close>: a RangeError for more than 100 digits; a magnitude
  of \<open>10 ^ 21\<close> or more is written as \<^verbatim>\<open>String(x)\<close> writes it (the parameter
  \<open>numberToString\<close>); otherwise the sign, the integer part and exactly \<open>f\<close>
  fraction digits.
\<close>

definition toFixed :: "(rat \<Rightarrow> string) \<Rightarrow> nat \<Rightarrow> rat \<Rightarrow> js_error + string" where
  "toFixed numberToString f x =
     (if 100 < f then Inl (RangeError ''toFixed() digits argument must be between 0 and 100'')
      else if 10 ^ 21 \<le> \<bar>x\<bar> then Inr (numberToString x)
      else Inr ((if x < 0 then ''-'' else []) @ decimal (scaled f x div 10 ^ f)
                 @ (if f = 0 then [] else ''.'' @ fraction_digits f (scaled f x))))"

text \<open>
  The text of \<^verbatim>\<open>token.bonding_curve_progress?.toFixed(2) || 0\<close> (line 114):
  \<^verbatim>\<open>?.\<close> gives \<^verbatim>\<open>undefined\<close> on a null or undefined progress, and the number 0
  that \<^verbatim>\<open>||\<close> then chooses is rendered as the text 0.
\<close>

definition progressText :: "(rat \<Rightarrow> string) \<Rightarrow> rat js_value \<Rightarrow> js_error + string" where
  "progressText numberToString progress =
     (case progress of
        Undefined \<Rightarrow> Inr ''0''
      | Null \<Rightarrow> Inr ''0''
      | Value x \<Rightarrow>
          (case toFixed numberToString 2 x of
             Inl e \<Rightarrow> Inl e
           | Inr s \<Rightarrow> Inr (if s = [] then ''0'' else s)))"

text \<open>\<^verbatim>\<open>token.token_name || 'Unknown'\<close> and \<^verbatim>\<open>token.token_symbol || 'N/A'\<close>.\<close>

definition or_else :: "string js_value \<Rightarrow> string \<Rightarrow> string" where
  "or_else v fallback =
     (case v of
        Undefined \<Rightarrow> fallback
      | Null \<Rightarrow> fallback
      | Value s \<Rightarrow> (if s = [] then fallback else s))"

text \<open>The cells of one table row (lines 95-116), in the order they are evaluated.\<close>

record Row =
  name_cell :: string
  symbol_cell :: string
  price_cell :: string
  market_cap_cell :: string
  volume_cell :: string
  progress_cell :: string
  created_cell :: string

definition renderRow ::
  "(rat \<Rightarrow> string) \<Rightarrow> (string \<Rightarrow> string) \<Rightarrow> TokenRecord \<Rightarrow> js_error + Row" where
  "renderRow numberToString toLocaleString token =
     (case formatCurrency (number_column (price token)) of
        Inl e \<Rightarrow> Inl e
      | Inr p \<Rightarrow>
     (case formatCurrency (number_column (market_cap token)) of
        Inl e \<Rightarrow> Inl e
      | Inr m \<Rightarrow>
     (case formatCurrency (number_column (volume_24h token)) of
        Inl e \<Rightarrow> Inl e
      | Inr v \<Rightarrow>
     (case progressText numberToString (column (bonding_curve_progress token)) of
        Inl e \<Rightarrow> Inl e
      | Inr b \<Rightarrow>
          Inr \<lparr>name_cell = or_else (column (token_name token)) ''Unknown'',
               symbol_cell = or_else (column (token_symbol token)) ''N/A'',
               price_cell = p, market_cap_cell = m, volume_cell = v,
               progress_cell = b @ ''%'',
               created_cell = formatDate toLocaleString (column (creation_time token))\<rparr>))))"

text \<open>
  \<^verbatim>\<open>formatNumber\<close> of Dashboard (lines 2-4). \<^verbatim>\<open>new Intl.NumberFormat()\<close> formats in
  the host's default locale: the parameter \<open>localeFormat\<close>. \<^verbatim>\<open>Math.round\<close> rounds
  to the nearest integer, a tie going up.
\<close>

definition formatNumber :: "(int \<Rightarrow> string) \<Rightarrow> rat \<Rightarrow> string" where
  "formatNumber localeFormat num = localeFormat \<lfloor>num + 1 / 2\<rfloor>"

text \<open>The four figures of Dashboard (lines 19-34).\<close>

definition renderDashboard :: "(int \<Rightarrow> string) \<Rightarrow> SummaryStats \<Rightarrow> js_error + string list" where
  "renderDashboard localeFormat s =
     (case formatCurrency_Dashboard (Value (averageMarketCap s)) of
        Inl e \<Rightarrow> Inl e
      | Inr avg \<Rightarrow>
          Inr [formatNumber localeFormat (of_nat (totalTokens s)),
               formatNumber localeFormat (of_nat (kingsOfHill s)),
               formatNumber localeFormat (of_nat (raydiumMigrated s)),
               avg])"

section \<open>Reading a formatted amount\<close>


definition in_dollars :: "string \<Rightarrow> bool" where
  "in_dollars s = (take 1 s = ''$'' \<or> take 2 s = ''-$'')"

section \<open>Example rows\<close>

definition example_token :: "nat \<Rightarrow> rat option \<Rightarrow> TokenRecord" where
  "example_token n cap =
     \<lparr>market_cap = cap, token_id = n, token_address = ''So11111111111111111111111111111111111111112'',
      token_name = Some ''Token'', token_symbol = Some ''TKN'', price = None,
      volume_24h = None, bonding_curve_progress = None, creation_time = None,
      is_king_of_hill = False, raydium_migrated = False\<rparr>"

definition example_caps :: "MarketCapRow list" where
  "example_caps = [\<lparr>market_cap = Some 1000000\<rparr>, \<lparr>market_cap = Some 500000\<rparr>, \<lparr>market_cap = None\<rparr>]"

definition example_stats :: SummaryStats where
  "example_stats =
     \<lparr>totalTokens = 120, kingsOfHill = 3, raydiumMigrated = 40,
      averageMarketCap = Finite 750000\<rparr>"

definition counted :: "nat \<Rightarrow> 'd awaited" where
  "counted n = Resolved (Response None None (Some n))"

text \<open>A row whose nullable columns are all null.\<close>

definition null_token :: TokenRecord where
  "null_token =
     \<lparr>market_cap = None, token_id = 15, token_address = ''So11111111111111111111111111111111111111112'',
      token_name = None, token_symbol = None, price = None, volume_24h = None,
      bonding_curve_progress = None, creation_time = None,
      is_king_of_hill = False, raydium_migrated = False\<rparr>"

section \<open>The average as the specification words it\<close>

text \<open>
  The values that survive the falsy filter: the market caps that are neither
  null nor zero, in order, as the doubles they are.
\<close>

definition surviving :: "MarketCapRow list \<Rightarrow> number list" where
  "surviving marketCapData =
     filter (\<lambda>n. \<not> is_zero n) (map to_double [x. Some x \<leftarrow> map market_cap marketCapData])"

text \<open>The sum of a list of values as \<^verbatim>\<open>reduce\<close> adds them: from the left, from 0.\<close>

definition sum_of :: "number list \<Rightarrow> number" where
  "sum_of xs = foldl js_add (Finite 0) xs"

text \<open>A page that has loaded two rows and computed \<open>example_stats\<close>.\<close>

definition example_home :: Home where
  "example_home =
     \<lparr>tokens = [example_token 11 (Some 1000000), example_token 12 (Some 500000)],
      loading = False, stats = example_stats, console = []\<rparr>"

section \<open>Orderings read from a comparator\<close>

text \<open>
  \<open>x\<close> goes before \<open>y\<close> when \<open>comparefn x y < 0\<close>. The sort needs that relation
  to be a strict weak order; a list is ordered when no element goes before an
  earlier one.
\<close>

definition weak_order :: "('a \<Rightarrow> 'a \<Rightarrow> int) \<Rightarrow> bool" where
  "weak_order c \<longleftrightarrow>
     (\<forall>x. \<not> c x x < 0) \<and>
     (\<forall>x y z. c x y < 0 \<longrightarrow> c y z < 0 \<longrightarrow> c x z < 0) \<and>
     (\<forall>x y z. c x y < 0 \<longrightarrow> c x z < 0 \<or> c z y < 0)"

definition ordered_by :: "('a \<Rightarrow> 'a \<Rightarrow> int) \<Rightarrow> 'a list \<Rightarrow> bool" where
  "ordered_by c xs = sorted_wrt (\<lambda>x y. \<not> c y x < 0) xs"

text \<open>
  The shifting loop on the reversed prefix is the inserting loop under the
  comparator read the other way round.
\<close>

definition reversed_reading :: "('a \<Rightarrow> 'a \<Rightarrow> int) \<Rightarrow> 'a \<Rightarrow> 'a \<Rightarrow> int" where
  "reversed_reading c x y = (if c y x > 0 then 1 else - 1)"

section \<open>Lemmas on the comparator and the sort\<close>

lemma compare_by_irrefl: "\<not> compare_by get d x x < 0"
  by (cases "get x") (auto simp: compare_by_def)

lemma compare_by_trans:
  "compare_by get d x y < 0 \<Longrightarrow> compare_by get d y z < 0 \<Longrightarrow> compare_by get d x z < 0"
  by (cases "get x"; cases "get y"; cases "get z"; cases d)
     (auto simp: compare_by_def split: if_splits)

lemma compare_by_between:
  "compare_by get d x y < 0 \<Longrightarrow> compare_by get d x z < 0 \<or> compare_by get d z y < 0"
  by (cases "get x"; cases "get y"; cases "get z"; cases d)
     (auto simp: compare_by_def split: if_splits)

lemma weak_order_compare_by: "weak_order (compare_by get d)"
  unfolding weak_order_def
proof (intro conjI allI impI)
  fix x y z :: 'a
  show "\<not> compare_by get d x x < 0" by (rule compare_by_irrefl)
  show "compare_by get d x y < 0 \<Longrightarrow> compare_by get d y z < 0 \<Longrightarrow> compare_by get d x z < 0"
    by (rule compare_by_trans)
  show "compare_by get d x y < 0 \<Longrightarrow> compare_by get d x z < 0 \<or> compare_by get d z y < 0"
    by (rule compare_by_between)
qed

lemma weak_order_comparator: "weak_order (comparator F d)"
  by (cases F) (simp_all add: weak_order_compare_by)

lemma set_insert_by: "set (insert_by c x ys) = insert x (set ys)"
  by (induction ys) auto

lemma mset_insert_by: "mset (insert_by c x ys) = add_mset x (mset ys)"
  by (induction ys) auto

lemma array_sort_snoc: "array_sort Insert_if_negative c (xs @ [x]) = insert_by c x (array_sort Insert_if_negative c xs)"
  by (simp add: array_sort_def)

lemma array_sort_Nil: "array_sort e c [] = []"
  by (simp add: array_sort_def)

lemma mset_array_sort: "mset (array_sort Insert_if_negative c xs) = mset xs"
  by (induction xs rule: rev_induct) (simp_all add: array_sort_Nil array_sort_snoc mset_insert_by)

lemma ordered_by_insert_by:
  assumes "weak_order c" and "ordered_by c ys"
  shows "ordered_by c (insert_by c x ys)"
  using assms(2)
proof (induction ys)
  case Nil
  then show ?case by (simp add: ordered_by_def)
next
  case (Cons y ys)
  have irr: "\<And>u. \<not> c u u < 0" and tr: "\<And>u v w. c u v < 0 \<Longrightarrow> c v w < 0 \<Longrightarrow> c u w < 0"
    using assms(1) unfolding weak_order_def by blast+
  show ?case
  proof (cases "c x y < 0")
    case True
    have "\<not> c y x < 0" using True irr tr by blast
    moreover have "\<forall>z\<in>set ys. \<not> c z x < 0"
    proof
      fix z assume "z \<in> set ys"
      then have "\<not> c z y < 0" using Cons.prems by (simp add: ordered_by_def)
      then show "\<not> c z x < 0" using tr [of z x y] True by blast
    qed
    ultimately show ?thesis using True Cons.prems by (simp add: ordered_by_def)
  next
    case False
    then show ?thesis using Cons by (auto simp: ordered_by_def set_insert_by)
  qed
qed

lemma ordered_by_array_sort: "weak_order c \<Longrightarrow> ordered_by c (array_sort Insert_if_negative c xs)"
proof (induction xs rule: rev_induct)
  case Nil
  then show ?case by (simp add: array_sort_Nil ordered_by_def)
next
  case (snoc x xs)
  then show ?case by (simp add: array_sort_snoc ordered_by_insert_by)
qed

lemma insert_by_last: "\<forall>y\<in>set ys. \<not> c x y < 0 \<Longrightarrow> insert_by c x ys = ys @ [x]"
  by (induction ys) auto

lemma array_sort_ordered: "ordered_by c xs \<Longrightarrow> array_sort Insert_if_negative c xs = xs"
proof (induction xs rule: rev_induct)
  case Nil
  then show ?case by (simp add: array_sort_Nil)
next
  case (snoc x xs)
  from snoc.prems have o: "ordered_by c xs" and l: "\<forall>y\<in>set xs. \<not> c x y < 0"
    by (auto simp: ordered_by_def sorted_wrt_append)
  show ?case using insert_by_last [of xs c x] l by (simp add: array_sort_snoc snoc.IH [OF o])
qed

lemma filter_insert_by_other: "\<not> P x \<Longrightarrow> filter P (insert_by c x ys) = filter P ys"
  by (induction ys) auto

lemma filter_insert_by_tied:
  assumes "weak_order c" and "ordered_by c ys" and "P x"
    and tie: "\<And>y. P y \<Longrightarrow> \<not> c x y < 0"
  shows "filter P (insert_by c x ys) = filter P ys @ [x]"
  using assms(2)
proof (induction ys)
  case Nil
  then show ?case using assms(3) by simp
next
  case (Cons y ys)
  have nt: "\<And>u v w. c u v < 0 \<Longrightarrow> c u w < 0 \<or> c w v < 0"
    using assms(1) unfolding weak_order_def by blast
  show ?case
  proof (cases "c x y < 0")
    case True
    have "\<not> P y" using True tie by blast
    moreover have "\<forall>z\<in>set ys. \<not> P z"
    proof
      fix z assume z: "z \<in> set ys"
      then have "\<not> c z y < 0" using Cons.prems by (auto simp: ordered_by_def)
      then have "c x z < 0" using nt [OF True, of z] by blast
      then show "\<not> P z" using tie by blast
    qed
    ultimately have "filter P (y # ys) = []" by (simp add: filter_empty_conv)
    then show ?thesis using True assms(3) by simp
  next
    case False
    have "ordered_by c ys" using Cons.prems by (simp add: ordered_by_def)
    then show ?thesis using False Cons.IH by simp
  qed
qed

lemma array_sort_stable:
  assumes "weak_order c" and tie: "\<And>x y. P x \<Longrightarrow> P y \<Longrightarrow> \<not> c x y < 0"
  shows "filter P (array_sort Insert_if_negative c xs) = filter P xs"
proof (induction xs rule: rev_induct)
  case Nil
  then show ?case by (simp add: array_sort_Nil)
next
  case (snoc x xs)
  show ?case
  proof (cases "P x")
    case True
    have o: "ordered_by c (array_sort Insert_if_negative c xs)" by (rule ordered_by_array_sort [OF assms(1)])
    have t: "\<And>y. P y \<Longrightarrow> \<not> c x y < 0" using tie True by blast
    have "filter P (insert_by c x (array_sort Insert_if_negative c xs)) = filter P (array_sort Insert_if_negative c xs) @ [x]"
      using filter_insert_by_tied [of c "array_sort Insert_if_negative c xs" P x] assms(1) o True t by blast
    then show ?thesis using True snoc.IH by (simp add: array_sort_snoc)
  next
    case False
    then show ?thesis by (simp add: array_sort_snoc filter_insert_by_other snoc.IH)
  qed
qed

text \<open>The shifting engine, through the inserting one.\<close>

lemma shift_in_insert_by: "shift_in c x ys = insert_by (reversed_reading c) x ys"
  by (induction ys) (simp_all add: reversed_reading_def)

lemma array_sort_shift_snoc:
  "array_sort Shift_while_positive c (xs @ [x]) = shift_by c x (array_sort Shift_while_positive c xs)"
  by (simp add: array_sort_def)

lemma array_sort_shift_rev:
  "array_sort Shift_while_positive c xs = rev (array_sort Insert_if_negative (reversed_reading c) xs)"
  by (induction xs rule: rev_induct)
     (simp_all add: array_sort_Nil array_sort_shift_snoc array_sort_snoc shift_by_def
        shift_in_insert_by)

lemma reversed_reading_neg:
  assumes "\<And>x y. c x y \<noteq> 0"
  shows "reversed_reading c x y < 0 \<longleftrightarrow> c y x < 0"
  using assms [of y x] by (auto simp: reversed_reading_def)

lemma weak_order_reversed_reading:
  assumes w: "weak_order c" and nz: "\<And>x y. c x y \<noteq> 0"
  shows "weak_order (reversed_reading c)"
proof -
  have irr: "\<And>u. \<not> c u u < 0" and tr: "\<And>u v w. c u v < 0 \<Longrightarrow> c v w < 0 \<Longrightarrow> c u w < 0"
    and bt: "\<And>u v w. c u v < 0 \<Longrightarrow> c u w < 0 \<or> c w v < 0"
    using w unfolding weak_order_def by blast+
  show ?thesis
    unfolding weak_order_def reversed_reading_neg [of c, OF nz]
  proof (intro conjI allI impI)
    fix x y z
    show "\<not> c x x < 0" by (rule irr)
    show "c y x < 0 \<Longrightarrow> c z y < 0 \<Longrightarrow> c z x < 0" using tr by blast
    show "c y x < 0 \<Longrightarrow> c z x < 0 \<or> c y z < 0" using bt [of y x z] by blast
  qed
qed

lemma mset_array_sort_any: "mset (array_sort e c xs) = mset xs"
  by (cases e) (simp_all add: mset_array_sort array_sort_shift_rev)

lemma ordered_by_array_sort_shift:
  assumes w: "weak_order c" and nz: "\<And>x y. c x y \<noteq> 0"
  shows "ordered_by c (array_sort Shift_while_positive c xs)"
proof -
  let ?l = "array_sort Insert_if_negative (reversed_reading c) xs"
  have "sorted_wrt (\<lambda>x y. \<not> reversed_reading c y x < 0) ?l"
    using ordered_by_array_sort [OF weak_order_reversed_reading [OF w nz]]
    by (simp add: ordered_by_def)
  then have "sorted_wrt (\<lambda>x y. \<not> c x y < 0) ?l"
    by (rule sorted_wrt_mono_rel [rotated]) (simp add: reversed_reading_def split: if_splits)
  then show ?thesis
    by (simp add: ordered_by_def array_sort_shift_rev sorted_wrt_rev)
qed

lemma ordered_by_array_sort_any:
  assumes "weak_order c" and "\<And>x y. c x y \<noteq> 0"
  shows "ordered_by c (array_sort e c xs)"
  using assms by (cases e) (simp_all add: ordered_by_array_sort ordered_by_array_sort_shift)

lemma comparator_tie: "sameValue F x y \<Longrightarrow> \<not> comparator F d x y < 0"
  by (cases F) (auto simp: compare_by_def split: option.splits)

lemma comparator_null_after: "isNull F a \<Longrightarrow> \<not> isNull F b \<Longrightarrow> comparator F d b a < 0"
  by (cases F) (auto simp: compare_by_def split: option.splits)

lemma sameValue_trans: "sameValue F r x \<Longrightarrow> sameValue F r y \<Longrightarrow> sameValue F x y"
  by (cases F) simp_all

lemma comparator_nonzero: "comparator F d a b \<noteq> 0"
  by (cases F) (auto simp: compare_by_def split: option.splits)

lemma market_cap_example_token: "market_cap (example_token n cap) = cap"
  by (simp add: example_token_def)

lemmas sort_by_hand = sortedTokens_def initialSortState_def array_sort_def shift_by_def
  compare_by_def example_token_def

text \<open>
  Two rows with the same market cap, one with none and one with a larger one,
  under the default sort and its reverse, on the inserting engine: the equal
  rows keep their order and the null row is last both times.
\<close>

lemma sortedTokens_example_desc:
  "sortedTokens Insert_if_negative initialSortState
     [example_token 11 (Some 5), example_token 12 None, example_token 13 (Some 5),
      example_token 14 (Some 9)]
   = [example_token 14 (Some 9), example_token 11 (Some 5), example_token 13 (Some 5),
      example_token 12 None]"
  by (simp add: sort_by_hand)

lemma sortedTokens_example_asc:
  "sortedTokens Insert_if_negative \<lparr>sortField = F_market_cap, sortDirection = Asc\<rparr>
     [example_token 11 (Some 5), example_token 12 None, example_token 13 (Some 5),
      example_token 14 (Some 9)]
   = [example_token 11 (Some 5), example_token 13 (Some 5), example_token 14 (Some 9),
      example_token 12 None]"
  by (simp add: sort_by_hand)

section \<open>The claims on the table\<close>

text \<open>
  C1, at an input where it fails. Five rows in insertion order with market caps
  5, null, 5, 9, null (ids 11 to 15), sorted by market cap, descending, on the
  shifting engine. The comparator says 1 for the two rows of cap 5 in either
  order, and for the two null rows: the sort puts 13 before 11 and 15 before
  12, and sorting its own output again puts them back the other way round.
  The sort is neither stable nor idempotent there.
\<close>

theorem sortedTokens_ties_reversed:
  "sortedTokens Shift_while_positive initialSortState
     [example_token 11 (Some 5), example_token 12 None, example_token 13 (Some 5),
      example_token 14 (Some 9), example_token 15 None]
   = [example_token 14 (Some 9), example_token 13 (Some 5), example_token 11 (Some 5),
      example_token 15 None, example_token 12 None] \<and>
   sortedTokens Shift_while_positive initialSortState
     [example_token 14 (Some 9), example_token 13 (Some 5), example_token 11 (Some 5),
      example_token 15 None, example_token 12 None]
   = [example_token 14 (Some 9), example_token 11 (Some 5), example_token 13 (Some 5),
      example_token 12 None, example_token 15 None]"
  by (simp add: sort_by_hand)

text \<open>
  What does hold of the order of equal keys: on the inserting engine the sort
  is a stable, idempotent ordering. The output holds the rows of the input, no
  row goes before an earlier one under the comparator, the rows that share the
  sort-field value of any row \<open>r\<close> (null included) keep the order they have in
  the input, and sorting the output again changes nothing.
\<close>

theorem sortedTokens_stable_when_inserting:
  "mset (sortedTokens Insert_if_negative st rows) = mset rows \<and>
   ordered_by (comparator (sortField st) (sortDirection st))
     (sortedTokens Insert_if_negative st rows) \<and>
   filter (sameValue (sortField st) r) (sortedTokens Insert_if_negative st rows)
     = filter (sameValue (sortField st) r) rows \<and>
   sortedTokens Insert_if_negative st (sortedTokens Insert_if_negative st rows)
     = sortedTokens Insert_if_negative st rows"
proof (intro conjI)
  let ?c = "comparator (sortField st) (sortDirection st)"
  have w: "weak_order ?c" by (rule weak_order_comparator)
  show "mset (sortedTokens Insert_if_negative st rows) = mset rows"
    by (simp add: sortedTokens_def mset_array_sort)
  show "ordered_by ?c (sortedTokens Insert_if_negative st rows)"
    unfolding sortedTokens_def by (rule ordered_by_array_sort [OF w])
  have "\<And>x y. sameValue (sortField st) r x \<Longrightarrow> sameValue (sortField st) r y \<Longrightarrow> \<not> ?c x y < 0"
    using sameValue_trans comparator_tie by blast
  then show "filter (sameValue (sortField st) r) (sortedTokens Insert_if_negative st rows)
      = filter (sameValue (sortField st) r) rows"
    unfolding sortedTokens_def by (rule array_sort_stable [OF w])
  show "sortedTokens Insert_if_negative st (sortedTokens Insert_if_negative st rows)
      = sortedTokens Insert_if_negative st rows"
    unfolding sortedTokens_def by (rule array_sort_ordered [OF ordered_by_array_sort [OF w]])
qed

text \<open>
  On either engine the output holds the rows of the input and is ordered by
  the field and direction: no row goes before an earlier one under the
  comparator.
\<close>

theorem sortedTokens_ordered:
  "mset (sortedTokens e st rows) = mset rows \<and>
   ordered_by (comparator (sortField st) (sortDirection st)) (sortedTokens e st rows)"
  unfolding sortedTokens_def
  using ordered_by_array_sort_any [OF weak_order_comparator comparator_nonzero]
  by (simp add: mset_array_sort_any)

text \<open>
  C2. On either engine, for every sort field and both directions, the sorted
  output holds exactly the rows of the input, and in it a row whose sort-field
  value is null stands after every row whose value is not null: if position
  \<open>i\<close> holds a null value and position \<open>j\<close> a non-null one, then \<open>j\<close> is
  before \<open>i\<close>.
\<close>

theorem sortedTokens_nulls_last:
  "mset (sortedTokens e st rows) = mset rows \<and>
   (\<forall>i j. i < length (sortedTokens e st rows) \<longrightarrow> j < length (sortedTokens e st rows) \<longrightarrow>
      isNull (sortField st) (sortedTokens e st rows ! i) \<longrightarrow>
      \<not> isNull (sortField st) (sortedTokens e st rows ! j) \<longrightarrow> j < i)"
proof (intro conjI allI impI)
  show "mset (sortedTokens e st rows) = mset rows"
    by (simp add: sortedTokens_def mset_array_sort_any)
next
  fix i j
  let ?c = "comparator (sortField st) (sortDirection st)"
  let ?out = "sortedTokens e st rows"
  assume j: "j < length ?out"
    and ni: "isNull (sortField st) (?out ! i)" and nj: "\<not> isNull (sortField st) (?out ! j)"
  show "j < i"
  proof (rule ccontr)
    assume "\<not> j < i"
    moreover have "i \<noteq> j" using ni nj by auto
    ultimately have "i < j" by simp
    moreover have "sorted_wrt (\<lambda>x y. \<not> ?c y x < 0) ?out"
      using ordered_by_array_sort_any [OF weak_order_comparator comparator_nonzero]
      by (simp add: sortedTokens_def ordered_by_def)
    ultimately have "\<not> ?c (?out ! j) (?out ! i) < 0"
      using j by (simp add: sorted_wrt_iff_nth_less)
    then show False using comparator_null_after [OF ni nj] by simp
  qed
qed

theorem sortedTokens_nulls_last_witness:
  "sortedTokens Shift_while_positive initialSortState
     [example_token 11 None, example_token 12 (Some 5), example_token 13 (Some 7)]
   = [example_token 13 (Some 7), example_token 12 (Some 5), example_token 11 None] \<and>
   mset (sortedTokens Shift_while_positive initialSortState
     [example_token 11 None, example_token 12 (Some 5), example_token 13 (Some 7)])
   = mset [example_token 11 None, example_token 12 (Some 5), example_token 13 (Some 7)] \<and>
   isNull F_market_cap (sortedTokens Shift_while_positive initialSortState
        [example_token 11 None, example_token 12 (Some 5), example_token 13 (Some 7)] ! 2) \<and>
   \<not> isNull F_market_cap (sortedTokens Shift_while_positive initialSortState
        [example_token 11 None, example_token 12 (Some 5), example_token 13 (Some 7)] ! 0) \<and>
   (0::nat) < 2"
proof -
  let ?ts = "[example_token 11 None, example_token 12 (Some 5), example_token 13 (Some 7)]"
  let ?out = "sortedTokens Shift_while_positive initialSortState ?ts"
  have out: "?out = [example_token 13 (Some 7), example_token 12 (Some 5), example_token 11 None]"
    by (simp add: sort_by_hand)
  have f: "sortField initialSortState = F_market_cap" by (simp add: initialSortState_def)
  have h1: "2 < length ?out" and h2: "0 < length ?out" by (simp_all add: out)
  have h3: "isNull (sortField initialSortState) (?out ! 2)"
    by (simp add: out f market_cap_example_token)
  have h4: "\<not> isNull (sortField initialSortState) (?out ! 0)"
    by (simp add: out f market_cap_example_token)
  from sortedTokens_nulls_last [of Shift_while_positive initialSortState ?ts]
  have m: "mset ?out = mset ?ts" and "(0::nat) < 2"
    using h1 h2 h3 h4 by blast+
  then show ?thesis using out h3 h4 by (simp add: f)
qed

text \<open>
  C4. Selecting the active field keeps the field and flips the direction, so
  selecting it twice gives back the state; selecting any other field \<open>G\<close> makes
  the state \<open>(G, descending)\<close>.
\<close>

theorem handleSort_toggle:
  "sortField (handleSort (sortField st) st) = sortField st \<and>
   sortDirection (handleSort (sortField st) st) \<noteq> sortDirection st \<and>
   handleSort (sortField st) (handleSort (sortField st) st) = st \<and>
   (G \<noteq> sortField st \<longrightarrow> handleSort G st = \<lparr>sortField = G, sortDirection = Desc\<rparr>)"
  by (cases st; cases "sortDirection st") (simp_all add: handleSort_def)

theorem handleSort_toggle_witness:
  "handleSort F_market_cap (handleSort F_market_cap initialSortState) = initialSortState \<and>
   handleSort F_price \<lparr>sortField = F_market_cap, sortDirection = Asc\<rparr>
     = \<lparr>sortField = F_price, sortDirection = Desc\<rparr>"
  using handleSort_toggle [of initialSortState F_price]
    handleSort_toggle [of "\<lparr>sortField = F_market_cap, sortDirection = Asc\<rparr>" F_price]
  by (simp add: initialSortState_def)

text \<open>
  C9. The comparator returns 1 or -1 and never 0; on two rows whose sort-field
  values are the same (equal and non-null, or both null) it returns 1 in either
  argument order.
\<close>

theorem comparator_never_zero:
  "(comparator F d a b = 1 \<or> comparator F d a b = - 1) \<and>
   comparator F d a b \<noteq> 0 \<and>
   (sameValue F a b \<longrightarrow> comparator F d a b = 1 \<and> comparator F d b a = 1)"
  by (cases F) (auto simp: compare_by_def split: option.splits)

theorem comparator_never_zero_witness:
  "sameValue F_market_cap (example_token 11 (Some 5)) (example_token 12 (Some 5)) \<and>
   comparator F_market_cap Desc (example_token 11 (Some 5)) (example_token 12 (Some 5)) = 1 \<and>
   comparator F_market_cap Desc (example_token 12 (Some 5)) (example_token 11 (Some 5)) = 1"
proof -
  have h: "sameValue F_market_cap (example_token 11 (Some 5)) (example_token 12 (Some 5))"
    by (simp add: market_cap_example_token)
  show ?thesis
    using comparator_never_zero [of F_market_cap Desc "example_token 11 (Some 5)"
        "example_token 12 (Some 5)"] h
    by simp
qed

section \<open>Lemmas on numbers\<close>

text \<open>
  The recursive equations of the bisection are unfolded by hand. Floors of
  quotients of numerals are computed by integer division.
\<close>

declare log2_up.simps [simp del] log2_down.simps [simp del]

lemma floor_rat_numeral_divide:
  "\<lfloor>numeral a / numeral b :: rat\<rfloor> = numeral a div numeral b"
  by (metis floor_divide_of_int_eq of_int_numeral)

lemma floor_rat_one_divide: "\<lfloor>1 / numeral b :: rat\<rfloor> = 1 div numeral b"
  by (metis floor_divide_of_int_eq of_int_1 of_int_numeral)

lemmas double_by_hand = to_double_def with_sign_def on_grid_def ulp_def spacing_def
  binary_exponent_def round_half_even_def nearest_to_def log2_up.simps log2_down.simps
  js_add_def js_divide_def is_zero_def is_infinite_def negative_def value_of_def
  floor_rat_numeral_divide floor_rat_one_divide

text \<open>
  Rounding at work: 0.1 is not a double; \<^verbatim>\<open>1e16 + 1\<close> is a tie and goes to the
  even neighbour, as \<^verbatim>\<open>1e16 + 3\<close> does; the largest double, more than it by half a step, the smallest
  double and half of it.
\<close>

lemma to_double_examples:
  "to_double (1 / 10) = Finite (3602879701896397 / 2 ^ 55)"
  "to_double 10000000000000001 = Finite 10000000000000000"
  "to_double 10000000000000003 = Finite 10000000000000004"
  "to_double (2 ^ 1024 - 2 ^ 971) = Finite (2 ^ 1024 - 2 ^ 971)"
  "to_double (2 ^ 1024 - 2 ^ 970) = PosInfinity"
  "to_double (1 / 2 ^ 1074) = Finite (1 / 2 ^ 1074)"
  "to_double (- (1 / 2 ^ 1075)) = NegZero"
  by (simp_all add: double_by_hand)

section \<open>Lemmas on the statistics\<close>

lemma foldl_js_add_toNumber:
  "foldl (\<lambda>sum cap. js_add sum (toNumber cap)) acc caps = foldl js_add acc (map toNumber caps)"
  by (induction caps arbitrary: acc) simp_all

lemma toNumber_validMarketCaps: "map toNumber (validMarketCaps rows) = surviving rows"
  by (induction rows)
     (auto simp: validMarketCaps_def surviving_def truthy_def toNumber_def split: option.splits)

lemma length_validMarketCaps: "length (validMarketCaps rows) = length (surviving rows)"
  using toNumber_validMarketCaps [of rows] by (metis length_map)

lemma averageOf_surviving:
  "averageOf rows =
     (if surviving rows = [] then Finite 0
      else js_divide (sum_of (surviving rows)) (Finite (of_nat (length (surviving rows)))))"
  by (simp add: averageOf_def sum_of_def foldl_js_add_toNumber toNumber_validMarketCaps
      length_validMarketCaps)

lemma averageOf_example_caps: "averageOf example_caps = Finite 750000"
  by (simp add: averageOf_surviving surviving_def sum_of_def example_caps_def double_by_hand)

text \<open>
  Where the doubles show: \<^verbatim>\<open>1e16\<close>, 1, 1 add up to \<^verbatim>\<open>1e16\<close> (each 1 is lost) and
  the third of it is rounded to a half; the average of 0.1 and 0.2 is
  \<^verbatim>\<open>0.15000000000000002\<close>; two values of \<^verbatim>\<open>1e308\<close> overflow.
\<close>

lemma averageOf_decimals:
  "averageOf [\<lparr>market_cap = Some (1 / 10)\<rparr>, \<lparr>market_cap = Some (2 / 10)\<rparr>]
     = Finite (1351079888211149 / 2 ^ 53)"
  by (simp add: averageOf_surviving surviving_def sum_of_def double_by_hand)

lemma averageOf_rounds:
  "averageOf [\<lparr>market_cap = Some 10000000000000000\<rparr>, \<lparr>market_cap = Some 1\<rparr>,
      \<lparr>market_cap = Some 1\<rparr>] = Finite (6666666666666667 / 2)"
  by (simp add: averageOf_surviving surviving_def sum_of_def double_by_hand)

lemma averageOf_overflows:
  "averageOf [\<lparr>market_cap = Some (10 ^ 308)\<rparr>, \<lparr>market_cap = Some (10 ^ 308)\<rparr>] = PosInfinity"
  by (simp add: averageOf_surviving surviving_def sum_of_def double_by_hand)

lemma fetchStats_resolved:
  "fetchStats (Resolved (Response d1 e1 c1)) (Resolved (Response d2 e2 c2))
       (Resolved (Response d3 e3 c3)) (Resolved (Response (Some caps) e4 c4)) st
     = st\<lparr>stats := \<lparr>totalTokens = or_zero c1, kingsOfHill = or_zero c2,
            raydiumMigrated = or_zero c3, averageMarketCap = averageOf caps\<rparr>\<rparr>"
  by (simp add: fetchStats_def)


text \<open>
  What does hold of \<^verbatim>\<open>fetchStats\<close> on a failure: when an await rejects, or the
  market-cap query resolves without data, the \<^verbatim>\<open>catch\<close> logs the error and the
  statistics and the rows stay as they were. The rows and the loading flag are
  never touched.
\<close>

lemma fetchStats_frame:
  "tokens (fetchStats q1 q2 q3 q4 st) = tokens st \<and> loading (fetchStats q1 q2 q3 q4 st) = loading st"
  by (simp add: fetchStats_def console_error_def split: awaited.splits option.splits)

theorem fetchStats_stale_when_thrown:
  assumes "q1 = Rejected e \<or> q2 = Rejected e \<or> q3 = Rejected e \<or> q4 = Rejected e
      \<or> q4 = Resolved (Response None err c)"
  shows "stats (fetchStats q1 q2 q3 q4 st) = stats st \<and>
     tokens (fetchStats q1 q2 q3 q4 st) = tokens st \<and>
     length (console (fetchStats q1 q2 q3 q4 st)) = Suc (length (console st))"
  using assms by (auto simp: fetchStats_def console_error_def split: awaited.splits option.splits)

theorem fetchStats_stale_when_thrown_witness:
  "stats (fetchStats (counted 121) (counted 3) (counted 40)
      (Resolved (Response None (Some (Failure ''upstream request timeout'')) None)) example_home)
     = stats example_home \<and>
   tokens (fetchStats (counted 121) (counted 3) (counted 40)
      (Resolved (Response None (Some (Failure ''upstream request timeout'')) None)) example_home)
     = tokens example_home"
  using fetchStats_stale_when_thrown [of "counted 121" "Failure ''x''" "counted 3" "counted 40"
      "Resolved (Response None (Some (Failure ''upstream request timeout'')) None)"
      "Some (Failure ''upstream request timeout'')" None example_home]
  by simp

section \<open>The claims on the page state\<close>


text \<open>
  C10. When \<^verbatim>\<open>fetchTokens\<close> returns, the loading flag is false, whether the
  fetch succeeded or failed; after a failed fetch the rows are the ones the
  page had.
\<close>

theorem fetchTokens_loading_false:
  "loading (fetchTokens query st) = False \<and>
   (failed query \<longrightarrow> tokens (fetchTokens query st) = tokens st)"
  by (cases query)
     (auto simp: fetchTokens_def failed_def console_error_def Let_def split: option.splits)

theorem fetchTokens_loading_false_witness:
  "failed (Rejected (Failure ''Failed to fetch'') :: TokenRecord list awaited) \<and>
   loading (fetchTokens (Rejected (Failure ''Failed to fetch'')) example_home) = False \<and>
   tokens (fetchTokens (Rejected (Failure ''Failed to fetch'')) example_home) = tokens example_home"
proof -
  have h: "failed (Rejected (Failure ''Failed to fetch'') :: TokenRecord list awaited)"
    by (simp add: failed_def)
  show ?thesis
    using fetchTokens_loading_false [of "Rejected (Failure ''Failed to fetch'')" example_home] h
    by simp
qed

text \<open>
  C5, at an input where it fails. The page shows the statistics (120, 3, 40,
  750000). On a refresh the total-count query resolves with an error and a
  null count, the other three queries succeed. \<^verbatim>\<open>fetchStats\<close> does not read
  \<open>error\<close>: nothing is thrown or logged, and the statistics become (0, 3, 40,
  750000) instead of staying as they were.
\<close>

theorem fetchStats_ignores_error:
  "stats (fetchStats (Resolved (Response None (Some (Failure ''upstream request timeout'')) None))
      (counted 3) (counted 40) (Resolved (Response (Some example_caps) None None)) example_home)
     = \<lparr>totalTokens = 0, kingsOfHill = 3, raydiumMigrated = 40, averageMarketCap = Finite 750000\<rparr> \<and>
   stats example_home
     = \<lparr>totalTokens = 120, kingsOfHill = 3, raydiumMigrated = 40, averageMarketCap = Finite 750000\<rparr> \<and>
   console (fetchStats (Resolved (Response None (Some (Failure ''upstream request timeout'')) None))
      (counted 3) (counted 40) (Resolved (Response (Some example_caps) None None)) example_home) = []"
  by (simp add: counted_def fetchStats_resolved or_zero_def averageOf_example_caps example_home_def
      example_stats_def)

text \<open>
  C7. On either engine, producing the sorted sequence leaves the input array as it was: the
  result is a new array, the input array and every other array of the heap
  hold what they held, and the new array holds the sorted rows.
\<close>

theorem sortedTokens_ref_leaves_input:
  assumes "tokens_ref < length h"
  shows "\<exists>copy h'. sortedTokens_ref e st tokens_ref h = Some (copy, h') \<and>
     copy \<noteq> tokens_ref \<and>
     deref h' tokens_ref = deref h tokens_ref \<and>
     (\<forall>r. r < length h \<longrightarrow> deref h' r = deref h r) \<and>
     deref h' copy = Some (sortedTokens e st (h ! tokens_ref))"
  using assms
  by (simp add: sortedTokens_ref_def deref_def spread_def sort_in_place_def sortedTokens_def
      nth_append)

theorem sortedTokens_ref_leaves_input_witness:
  "(0::nat) < length [[example_token 11 None, example_token 12 (Some 5)]] \<and>
   sortedTokens_ref Insert_if_negative initialSortState 0 [[example_token 11 None, example_token 12 (Some 5)]]
     = Some (1, [[example_token 11 None, example_token 12 (Some 5)],
                 [example_token 12 (Some 5), example_token 11 None]])"
proof -
  have h: "(0::nat) < length [[example_token 11 None, example_token 12 (Some 5)]]" by simp
  have s: "sortedTokens Insert_if_negative initialSortState [example_token 11 None, example_token 12 (Some 5)]
      = [example_token 12 (Some 5), example_token 11 None]"
    by (simp add: sort_by_hand)
  show ?thesis
    using sortedTokens_ref_leaves_input [OF h, of Insert_if_negative initialSortState] s
    by (auto simp: deref_def sortedTokens_ref_def spread_def sort_in_place_def sortedTokens_def)
qed

section \<open>Lemmas on the formatters\<close>

text \<open>
  The digit functions are unfolded by hand: their equations are recursive under
  an \<open>if\<close>.
\<close>

declare decimal.simps [simp del] fraction_digits.simps [simp del] group3.simps [simp del]
  strip_zeros.simps [simp del]











lemma in_dollars_format: "in_dollars ((if neg then ''-'' else []) @ ''$'' @ body)"
  by (simp add: in_dollars_def)





lemma formatCurrency_Dashboard_eq:
  "formatCurrency_Dashboard v = Inr (format_usd 0 0 (toNumeric v))"
  by (simp add: formatCurrency_Dashboard_def NumberFormat_usd_def)

lemma toFixed_2: "\<exists>s. toFixed numberToString 2 x = Inr s"
  by (simp add: toFixed_def)

lemma progressText_total: "\<exists>s. progressText numberToString p = Inr s"
proof (cases p)
  case (Value x)
  obtain s where "toFixed numberToString 2 x = Inr s" using toFixed_2 by blast
  then show ?thesis using Value by (simp add: progressText_def)
qed (simp_all add: progressText_def)

lemma formatCurrency_total: "\<exists>s. formatCurrency v = Inr s"
  by (simp add: formatCurrency_def NumberFormat_usd_def)

section \<open>The claims on the formatters\<close>



text \<open>
  C8. Every formatter returns a string and never throws, on every value of
  its column, null and undefined included: the two currency formatters, the
  progress text, the whole row (name and symbol fallbacks, the three amounts,
  the progress and the date) and the four dashboard figures. A row whose
  nullable columns are all null renders as Unknown, N/A, N/A, N/A, N/A, 0%, N/A.
\<close>

theorem formatters_total:
  "(\<exists>s. formatCurrency v = Inr s) \<and>
   (\<exists>s. formatCurrency_Dashboard v = Inr s) \<and>
   (\<exists>s. progressText numberToString p = Inr s) \<and>
   (\<exists>row. renderRow numberToString toLocaleString token = Inr row) \<and>
   (\<exists>cells. renderDashboard localeFormat stats_now = Inr cells) \<and>
   renderRow numberToString toLocaleString null_token
     = Inr \<lparr>name_cell = ''Unknown'', symbol_cell = ''N/A'', price_cell = ''N/A'',
            market_cap_cell = ''N/A'', volume_cell = ''N/A'', progress_cell = ''0%'',
            created_cell = ''N/A''\<rparr>"
proof (intro conjI)
  show "renderRow numberToString toLocaleString null_token
     = Inr \<lparr>name_cell = ''Unknown'', symbol_cell = ''N/A'', price_cell = ''N/A'',
            market_cap_cell = ''N/A'', volume_cell = ''N/A'', progress_cell = ''0%'',
            created_cell = ''N/A''\<rparr>"
    by (simp add: renderRow_def null_token_def number_column_def column_def formatCurrency_def progressText_def
        or_else_def formatDate_def)
  show "\<exists>s. formatCurrency v = Inr s" by (rule formatCurrency_total)
  show "\<exists>s. formatCurrency_Dashboard v = Inr s" by (simp add: formatCurrency_Dashboard_eq)
  show "\<exists>s. progressText numberToString p = Inr s" by (rule progressText_total)
  show "\<exists>row. renderRow numberToString toLocaleString token = Inr row"
  proof -
    obtain p where p: "formatCurrency (number_column (price token)) = Inr p"
      using formatCurrency_total by blast
    obtain m where m: "formatCurrency (number_column (market_cap token)) = Inr m"
      using formatCurrency_total by blast
    obtain v where v: "formatCurrency (number_column (volume_24h token)) = Inr v"
      using formatCurrency_total by blast
    obtain b where b: "progressText numberToString (column (bonding_curve_progress token)) = Inr b"
      using progressText_total by blast
    show ?thesis by (simp add: renderRow_def p m v b)
  qed
  show "\<exists>cells. renderDashboard localeFormat stats_now = Inr cells"
    by (simp add: renderDashboard_def formatCurrency_Dashboard_eq)
qed

end
